theory Spec2Isabelle
  imports Complex_Main
begin

section \<open>Strings as Python sees them\<close>

text \<open>
  Text is modelled as \<^typ>\<open>string\<close>; a character stands for the code point of the
  same number (0 to 255), and the three predicates below are Python's
  \<^verbatim>\<open>str.isspace\<close>, \<^verbatim>\<open>str.isalnum\<close> and \<^verbatim>\<open>str.lower\<close> on those code points.
\<close>

definition code_point :: "char \<Rightarrow> nat" where
  "code_point c = of_char c"

definition isspace_char :: "char \<Rightarrow> bool" where
  "isspace_char c =
     (let n = code_point c
      in (9 \<le> n \<and> n \<le> 13) \<or> (28 \<le> n \<and> n \<le> 32) \<or> n = 133 \<or> n = 160)"

definition isalnum_char :: "char \<Rightarrow> bool" where
  "isalnum_char c =
     (let n = code_point c
      in (48 \<le> n \<and> n \<le> 57) \<or> (65 \<le> n \<and> n \<le> 90) \<or> (97 \<le> n \<and> n \<le> 122)
         \<or> n = 170 \<or> n = 178 \<or> n = 179 \<or> n = 181 \<or> n = 185 \<or> n = 186
         \<or> (188 \<le> n \<and> n \<le> 190) \<or> (192 \<le> n \<and> n \<le> 214)
         \<or> (216 \<le> n \<and> n \<le> 246) \<or> (248 \<le> n \<and> n \<le> 255))"

definition lower_char :: "char \<Rightarrow> char" where
  "lower_char c =
     (let n = code_point c
      in if (65 \<le> n \<and> n \<le> 90) \<or> (192 \<le> n \<and> n \<le> 214) \<or> (216 \<le> n \<and> n \<le> 222)
         then char_of (n + 32) else c)"

definition lower :: "string \<Rightarrow> string" where
  "lower s = map lower_char s"

section \<open>models.py\<close>

datatype WalletStatus = active | paused

datatype TokenStatus = bonding_curve | graduated | rugged

text \<open>Timestamps are microseconds since the epoch (the resolution of \<^verbatim>\<open>datetime\<close>).\<close>

type_synonym datetime = int

record Token =
  contract_address :: string
  symbol :: string
  created_at :: datetime
  dev_address :: string
  market_cap_at_scan :: real
  status :: TokenStatus

record TrackedWallet =
  address :: string
  label :: string
  win_rate :: "real option"
  wallet_status :: WalletStatus
  source :: "string option"
  tracked_at :: datetime

record Signal =
  signal_id :: nat
  token_address :: string
  smart_wallet_count :: int
  signal_timestamp :: datetime
  confidence_score :: int
  is_executed :: bool

record SmartWalletCandidate =
  candidate_id :: nat
  wallet_address :: string
  token_count :: int
  token_symbols :: string
  first_seen :: datetime
  is_promoted :: bool

text \<open>
  The store, as far as the modelled operations touch it: each table is the list of its
  rows in insertion order. The primary keys (\<open>address\<close>, \<open>contract_address\<close>) are
  enforced where rows are inserted, not by the type.
\<close>

record store =
  db_tracked_wallets :: "TrackedWallet list"
  db_tokens :: "Token list"
  db_signals :: "Signal list"
  db_candidates :: "SmartWalletCandidate list"

datatype db_error = IntegrityError

text \<open>\<^verbatim>\<open>session.get(Token, token_address)\<close> and \<^verbatim>\<open>session.get(TrackedWallet, address)\<close>.\<close>

definition session_get_token :: "store \<Rightarrow> string \<Rightarrow> Token option" where
  "session_get_token db a = List.find (\<lambda>t. contract_address t = a) (db_tokens db)"

definition session_get_wallet :: "TrackedWallet list \<Rightarrow> string \<Rightarrow> TrackedWallet option" where
  "session_get_wallet wallets a = List.find (\<lambda>w. address w = a) wallets"

text \<open>The identifier the store gives a new Signal row: one more than any in use.\<close>

definition next_signal_id :: "Signal list \<Rightarrow> nat" where
  "next_signal_id sigs = Suc (foldr max (map signal_id sigs) 0)"

text \<open>
  \<^verbatim>\<open>session.add(token); session.add(signal); session.commit()\<close> as one transaction:
  the Token insert violates the primary key when a row with that address is present,
  the commit then raises and the transaction writes nothing.
\<close>

definition commit_token_signal :: "store \<Rightarrow> Token \<Rightarrow> (nat \<Rightarrow> Signal) \<Rightarrow> db_error + store" where
  "commit_token_signal db token signal =
     (if session_get_token db (contract_address token) \<noteq> None then Inl IntegrityError
      else Inr (db\<lparr>db_tokens := db_tokens db @ [token],
                    db_signals := db_signals db @ [signal (next_signal_id (db_signals db))]\<rparr>))"

section \<open>price\_bot.py\<close>

text \<open>
  A DexScreener pair, with the four fields the tracker reads. \<open>None\<close> is a key that is
  absent (or, for the two numbers, null); \<open>liquidity\<close> is the nested object with its
  \<^verbatim>\<open>usd\<close> entry. JSON numbers are taken as finite.
\<close>

record pair =
  marketCap :: "real option"
  fdv :: "real option"
  dexId :: "string option"
  liquidity :: "real option option"

definition GRADUATED_MC :: real where
  "GRADUATED_MC = 50000"

definition RUGGED_MC :: real where
  "RUGGED_MC = 500"

definition STALE_HOURS :: int where
  "STALE_HOURS = 48"

text \<open>Python's \<^verbatim>\<open>x or d\<close> on an optional number: a missing, null or zero \<open>x\<close> gives \<open>d\<close>.\<close>

fun num_or :: "real option \<Rightarrow> real \<Rightarrow> real" where
  "num_or None d = d"
| "num_or (Some v) d = (if v = 0 then d else v)"

text \<open>\<^verbatim>\<open>pair.get("marketCap") or pair.get("fdv") or 0\<close>\<close>

definition pair_mc :: "pair \<Rightarrow> real" where
  "pair_mc p = num_or (marketCap p) (num_or (fdv p) 0)"

text \<open>\<^verbatim>\<open>pair.get("liquidity", {}).get("usd", 0) or 0\<close>\<close>

definition pair_liquidity :: "pair \<Rightarrow> real" where
  "pair_liquidity p = (case liquidity p of None \<Rightarrow> 0 | Some usd \<Rightarrow> num_or usd 0)"

text \<open>\<^verbatim>\<open>pair.get("dexId", "").lower()\<close>\<close>

definition pair_dex :: "pair \<Rightarrow> string" where
  "pair_dex p = lower (case dexId p of None \<Rightarrow> [] | Some d \<Rightarrow> d)"

definition graduated_dexes :: "string set" where
  "graduated_dexes = {''raydium'', ''meteora'', ''orca'', ''jupiter''}"

definition determine_status :: "pair option \<Rightarrow> TokenStatus \<Rightarrow> TokenStatus" where
  "determine_status pr current_status =
     (case pr of
        None \<Rightarrow> current_status
      | Some p \<Rightarrow>
          (let mc = pair_mc p; dex = pair_dex p; liq = pair_liquidity p
           in if mc < RUGGED_MC \<or> (mc > 0 \<and> liq < 100) then rugged
              else if dex \<in> graduated_dexes \<and> mc \<ge> GRADUATED_MC then graduated
              else if mc \<ge> GRADUATED_MC * 2 then graduated
              else current_status))"

text \<open>
  The body of the loop over \<^verbatim>\<open>active_tokens\<close> in \<^verbatim>\<open>price_updater\<close>: refresh the market
  cap when a positive one is observed, then apply the status rule.
\<close>

definition update_token :: "(string \<rightharpoonup> pair) \<Rightarrow> Token \<Rightarrow> Token" where
  "update_token pair_data t =
     (let pr = pair_data (contract_address t);
          t1 = (case pr of
                  None \<Rightarrow> t
                | Some p \<Rightarrow> if pair_mc p > 0 then t\<lparr>market_cap_at_scan := pair_mc p\<rparr> else t);
          new_status = determine_status pr (status t1)
      in if new_status \<noteq> status t1 then t1\<lparr>status := new_status\<rparr> else t1)"

text \<open>
  The selection of one sweep: tokens whose status is \<^verbatim>\<open>bonding_curve\<close> or \<^verbatim>\<open>graduated\<close>
  and whose age is at most 48 hours.
\<close>

definition swept :: "datetime \<Rightarrow> Token \<Rightarrow> bool" where
  "swept now t =
     ((status t = bonding_curve \<or> status t = graduated)
      \<and> now - created_at t \<le> STALE_HOURS * 3600 * 1000000)"

text \<open>
  One iteration of \<^verbatim>\<open>price_updater\<close> on the token table, given the clock reading and
  the pairs that \<^verbatim>\<open>_fetch_token_data\<close> returned.
\<close>

definition price_sweep :: "datetime \<Rightarrow> (string \<rightharpoonup> pair) \<Rightarrow> Token list \<Rightarrow> Token list" where
  "price_sweep now pair_data tokens =
     map (\<lambda>t. if swept now t then update_token pair_data t else t) tokens"

text \<open>Any number of sweeps in sequence, each with its clock reading and fetched pairs.\<close>

definition price_sweeps ::
  "(datetime \<times> (string \<rightharpoonup> pair)) list \<Rightarrow> Token list \<Rightarrow> Token list" where
  "price_sweeps steps tokens =
     fold (\<lambda>(now, pair_data). price_sweep now pair_data) steps tokens"

section \<open>listener.py\<close>

subsection \<open>String operations used by the log parser\<close>

fun startswith :: "string \<Rightarrow> string \<Rightarrow> bool" where
  "startswith s [] = True"
| "startswith [] (p # ps) = False"
| "startswith (c # cs) (p # ps) = (c = p \<and> startswith cs ps)"

text \<open>\<^verbatim>\<open>needle in msg\<close> on strings.\<close>

fun str_in :: "string \<Rightarrow> string \<Rightarrow> bool" where
  "str_in needle [] = (needle = [])"
| "str_in needle (c # cs) = (startswith (c # cs) needle \<or> str_in needle cs)"

text \<open>
  \<^verbatim>\<open>msg.split()\<close>: the maximal runs of characters that are not whitespace. The first
  argument of \<open>split_from\<close> is the run being read, reversed.
\<close>

fun split_from :: "string \<Rightarrow> string \<Rightarrow> string list" where
  "split_from word [] = (if word = [] then [] else [rev word])"
| "split_from word (c # cs) =
     (if isspace_char c
      then (if word = [] then split_from [] cs else rev word # split_from [] cs)
      else split_from (c # word) cs)"

definition str_split :: "string \<Rightarrow> string list" where
  "str_split s = split_from [] s"

text \<open>\<^verbatim>\<open>s.strip(chars)\<close>: drop the characters of \<open>chars\<close> from both ends.\<close>

definition strip :: "string \<Rightarrow> string \<Rightarrow> string" where
  "strip chars s =
     rev (dropWhile (\<lambda>c. c \<in> set chars) (rev (dropWhile (\<lambda>c. c \<in> set chars) s)))"

text \<open>\<^verbatim>\<open>s.isalnum()\<close>: not empty, and every character alphanumeric.\<close>

definition isalnum :: "string \<Rightarrow> bool" where
  "isalnum s = (s \<noteq> [] \<and> list_all isalnum_char s)"

subsection \<open>Mint extraction from logs\<close>

text \<open>The characters of the literal \<^verbatim>\<open>",.;:'\"()"\<close>.\<close>

definition punctuation :: string where
  "punctuation = '',.;:'' @ [CHR 0x27, CHR 0x22] @ ''()''"

definition cleaned_part :: "string \<Rightarrow> string" where
  "cleaned_part part = strip punctuation part"

definition is_address :: "string \<Rightarrow> bool" where
  "is_address cleaned = (length cleaned \<ge> 32 \<and> length cleaned \<le> 44 \<and> isalnum cleaned)"

text \<open>The inner loop over the parts of one line, with its early return.\<close>

fun first_address :: "string list \<Rightarrow> string option" where
  "first_address [] = None"
| "first_address (part # parts) =
     (let cleaned = cleaned_part part
      in if is_address cleaned then Some cleaned else first_address parts)"

text \<open>The test on a line: \<^verbatim>\<open>"Create" in msg or "create" in msg\<close>.\<close>

definition create_marker :: "string \<Rightarrow> bool" where
  "create_marker msg = (str_in ''Create'' msg \<or> str_in ''create'' msg)"

fun extract_token_address_from_logs :: "string list \<Rightarrow> string option" where
  "extract_token_address_from_logs [] = None"
| "extract_token_address_from_logs (msg # log_messages) =
     (if create_marker msg
      then (case first_address (str_split msg) of
              Some cleaned \<Rightarrow> Some cleaned
            | None \<Rightarrow> extract_token_address_from_logs log_messages)
      else extract_token_address_from_logs log_messages)"

text \<open>
  The specification's wording of the same operation, for comparison: among the tokens
  of the lines that carry a marker, in order, the first that qualifies as an address
  once stripped. The marker is a parameter; \<open>claimed_marker\<close> is the one the
  specification names ("Create" in any casing, or "InitializeMint").
\<close>

definition spec_log_extraction :: "(string \<Rightarrow> bool) \<Rightarrow> string list \<Rightarrow> string option" where
  "spec_log_extraction marker log_messages =
     List.find is_address
       (map cleaned_part (concat (map str_split (filter marker log_messages))))"

definition claimed_marker :: "string \<Rightarrow> bool" where
  "claimed_marker msg = (str_in ''create'' (lower msg) \<or> str_in ''InitializeMint'' msg)"

subsection \<open>The seen-signature set of the polling listener\<close>

text \<open>
  \<^verbatim>\<open>seen_signatures\<close> is a Python set. It is represented by the list of its elements in
  the order they were added, oldest first, so that "most recently seen" can be said.
  \<^verbatim>\<open>list(seen_signatures)\<close> enumerates the set in its iteration order, which CPython
  takes from the hash table and not from the order of insertion: that enumeration is
  the parameter \<open>iteration_order\<close>, some rearrangement of the elements.
\<close>

text \<open>
  \<^verbatim>\<open>if len(seen_signatures) > 5000: seen_signatures = set(list(seen_signatures)[-2000:])\<close>
\<close>

definition cap_seen :: "(string list \<Rightarrow> string list) \<Rightarrow> string list \<Rightarrow> string list" where
  "cap_seen iteration_order seen_signatures =
     (if length seen_signatures > 5000
      then (let l = iteration_order seen_signatures in drop (length l - 2000) l)
      else seen_signatures)"

text \<open>The loop over one page of signatures, as far as the set is concerned.\<close>

definition mark_seen :: "string list \<Rightarrow> string list \<Rightarrow> string list" where
  "mark_seen signatures seen_signatures =
     fold (\<lambda>sig seen. if sig \<in> set seen then seen else seen @ [sig])
       signatures seen_signatures"

text \<open>The \<open>n\<close> signatures seen last.\<close>

definition most_recent :: "nat \<Rightarrow> string list \<Rightarrow> string set" where
  "most_recent n seen_signatures =
     set (drop (length seen_signatures - n) seen_signatures)"

text \<open>A supply of distinct signatures for concrete runs.\<close>

definition sig_no :: "nat \<Rightarrow> string" where
  "sig_no n = ''sig'' @ replicate n (CHR ''x'')"

section \<open>analyzer.py\<close>

text \<open>
  An enhanced transaction, with the four keys the analyzer reads (\<open>None\<close>: the key is
  absent). \<open>tx_timestamp\<close> is in seconds.
\<close>

record tx =
  tx_type :: "string option"
  tx_source :: "string option"
  feePayer :: "string option"
  tx_timestamp :: "int option"

text \<open>
  What the request of \<^verbatim>\<open>_fetch_enhanced_transactions\<close> can bring: an exception (a
  timeout, a failed connection, an error status), a body that is not a list, or the
  list of transactions.
\<close>

datatype helius_response = Transport_error | Error_body | Tx_list "tx list"

text \<open>\<open>None\<close> is the exception, which the callers catch.\<close>

fun fetch_enhanced_transactions :: "helius_response \<Rightarrow> tx list option" where
  "fetch_enhanced_transactions Transport_error = None"
| "fetch_enhanced_transactions Error_body = Some []"
| "fetch_enhanced_transactions (Tx_list txs) = Some txs"

text \<open>
  \<^verbatim>\<open>datetime.fromtimestamp(ts, tz=timezone.utc)\<close> raises outside the years 1 to 9999.
\<close>

definition fromtimestamp :: "int \<Rightarrow> datetime option" where
  "fromtimestamp ts =
     (if - 62135596800 \<le> ts \<and> ts \<le> 253402300799 then Some (ts * 1000000) else None)"

text \<open>\<^verbatim>\<open>if ts: created_at = datetime.fromtimestamp(ts, ...)\<close>; \<open>None\<close> when it raises.\<close>

definition created_from :: "int option \<Rightarrow> datetime \<Rightarrow> datetime option" where
  "created_from ts created =
     (case ts of
        None \<Rightarrow> Some created
      | Some t \<Rightarrow> if t = 0 then Some created else fromtimestamp t)"

definition pump_sources :: "string set" where
  "pump_sources = {''PUMP_FUN'', ''PUMP_AMM'', ''PUMP''}"

definition from_pump :: "tx \<Rightarrow> bool" where
  "from_pump t = (case tx_source t of None \<Rightarrow> False | Some src \<Rightarrow> src \<in> pump_sources)"

text \<open>\<^verbatim>\<open>d.get(key, default)\<close> for a key that may be absent.\<close>

definition get_or :: "'a option \<Rightarrow> 'a \<Rightarrow> 'a" where
  "get_or v d = (case v of None \<Rightarrow> d | Some x \<Rightarrow> x)"

record token_metadata =
  meta_symbol :: string
  meta_created_at :: datetime
  meta_dev_address :: string
  meta_market_cap :: real

text \<open>
  Step 1 of \<^verbatim>\<open>get_token_metadata\<close>: creation time and dev wallet from the transaction
  list, starting from the clock reading \<open>now\<close> and \<^verbatim>\<open>"unknown"\<close>.
\<close>

definition resolve_creation :: "datetime \<Rightarrow> tx list \<Rightarrow> (datetime \<times> string) option" where
  "resolve_creation now txs =
     (if txs = [] then Some (now, ''unknown'')
      else
        (let oldest_tx = last txs
         in case created_from (tx_timestamp oldest_tx) now of
              None \<Rightarrow> None
            | Some created1 \<Rightarrow>
                (let dev1 = get_or (feePayer oldest_tx) ''unknown''
                 in case List.find from_pump (rev txs) of
                      None \<Rightarrow> Some (created1, dev1)
                    | Some t \<Rightarrow>
                        (case created_from (tx_timestamp t) created1 of
                           None \<Rightarrow> None
                         | Some created2 \<Rightarrow> Some (created2, get_or (feePayer t) dev1)))))"

text \<open>
  \<^verbatim>\<open>get_token_metadata\<close>, given the clock reading taken inside it, the response to the
  transaction request and the symbol the asset lookup found (\<open>None\<close>: the lookup failed
  or carried no symbol). Any exception gives \<open>None\<close>.
\<close>

definition get_token_metadata ::
  "string \<Rightarrow> datetime \<Rightarrow> helius_response \<Rightarrow> string option \<Rightarrow> token_metadata option" where
  "get_token_metadata addr now response das_symbol =
     (case fetch_enhanced_transactions response of
        None \<Rightarrow> None
      | Some txs \<Rightarrow>
          (case resolve_creation now txs of
             None \<Rightarrow> None
           | Some (created_at', dev_address') \<Rightarrow>
               Some \<lparr>meta_symbol = get_or das_symbol (take 6 addr),
                     meta_created_at = created_at',
                     meta_dev_address = dev_address',
                     meta_market_cap = 0\<rparr>))"

text \<open>The transactions whose fee payer \<^verbatim>\<open>get_token_signers\<close> keeps.\<close>

definition is_signer_tx :: "tx \<Rightarrow> bool" where
  "is_signer_tx t =
     (feePayer t \<noteq> None \<and> feePayer t \<noteq> Some []
      \<and> (tx_type t = Some ''SWAP'' \<or> from_pump t))"

definition get_token_signers :: "helius_response \<Rightarrow> string list" where
  "get_token_signers response =
     (case fetch_enhanced_transactions response of
        None \<Rightarrow> []
      | Some txs \<Rightarrow> remdups (map (\<lambda>t. get_or (feePayer t) []) (filter is_signer_tx txs)))"

text \<open>
  What one scan observes outside the store: the two clock readings, the two
  transaction responses, the symbol lookup, and the clock at which the Signal row is
  built.
\<close>

record scan_env =
  metadata_clock :: datetime
  metadata_response :: helius_response
  das_symbol_found :: "string option"
  scan_clock :: datetime
  signers_response :: helius_response
  signal_clock :: datetime

text \<open>The return point a scan takes; \<open>Raised\<close> is an exception leaving the function.\<close>

datatype scan_outcome =
  Already_scanned | No_metadata | Too_old | Too_few_wallets | Signal_generated
  | Raised db_error

text \<open>
  \<^verbatim>\<open>select(TrackedWallet).where(address.in_(signers), status == "active")\<close>
\<close>

definition smart_wallet_matches :: "store \<Rightarrow> string list \<Rightarrow> TrackedWallet list" where
  "smart_wallet_matches db signers =
     filter (\<lambda>w. address w \<in> set signers \<and> wallet_status w = active) (db_tracked_wallets db)"

definition confidence_of :: "int \<Rightarrow> int" where
  "confidence_of n = min (50 + n * 10) 100"

definition new_token :: "string \<Rightarrow> token_metadata \<Rightarrow> Token" where
  "new_token addr meta =
     \<lparr>contract_address = addr, symbol = meta_symbol meta,
      created_at = meta_created_at meta, dev_address = meta_dev_address meta,
      market_cap_at_scan = meta_market_cap meta, status = bonding_curve\<rparr>"

definition new_signal :: "string \<Rightarrow> int \<Rightarrow> datetime \<Rightarrow> nat \<Rightarrow> Signal" where
  "new_signal addr count clock ident =
     \<lparr>signal_id = ident, token_address = addr, smart_wallet_count = count,
      signal_timestamp = clock, confidence_score = confidence_of count,
      is_executed = False\<rparr>"

text \<open>
  \<^verbatim>\<open>scan_new_token\<close>. The function is suspended twice, at
  \<^verbatim>\<open>await get_token_metadata\<close> and at \<^verbatim>\<open>await get_token_signers\<close>; \<open>during_metadata\<close>
  and \<open>during_signers\<close> are what other writers do to the store meanwhile. The result is
  the return point taken and the store when the function is left.
\<close>

definition scan_new_token_among ::
  "(store \<Rightarrow> store) \<Rightarrow> (store \<Rightarrow> store) \<Rightarrow> string \<Rightarrow> scan_env \<Rightarrow> store
     \<Rightarrow> scan_outcome \<times> store" where
  "scan_new_token_among during_metadata during_signers addr env db =
     (if session_get_token db addr \<noteq> None then (Already_scanned, db)
      else
        (let db1 = during_metadata db
         in case get_token_metadata addr (metadata_clock env)
                   (metadata_response env) (das_symbol_found env) of
              None \<Rightarrow> (No_metadata, db1)
            | Some meta \<Rightarrow>
                if scan_clock env - meta_created_at meta > 10 * 60 * 1000000
                then (Too_old, db1)
                else
                  (let signers = get_token_signers (signers_response env);
                       db2 = during_signers db1;
                       matches = smart_wallet_matches db2 signers;
                       count = int (length matches)
                   in if count < 2 then (Too_few_wallets, db2)
                      else
                        (case commit_token_signal db2 (new_token addr meta)
                                (new_signal addr count (signal_clock env)) of
                           Inl e \<Rightarrow> (Raised e, db2)
                         | Inr db3 \<Rightarrow> (Signal_generated, db3)))))"

text \<open>A scan with no other writer at work.\<close>

definition scan_new_token :: "string \<Rightarrow> scan_env \<Rightarrow> store \<Rightarrow> scan_outcome \<times> store" where
  "scan_new_token = scan_new_token_among (\<lambda>db. db) (\<lambda>db. db)"

text \<open>The same candidate delivered once per element of \<open>envs\<close>, in sequence.\<close>

definition deliver :: "string \<Rightarrow> scan_env list \<Rightarrow> store \<Rightarrow> store" where
  "deliver addr envs db =
     fold (\<lambda>env db'. snd (scan_new_token addr env db')) envs db"

definition token_rows :: "string \<Rightarrow> store \<Rightarrow> nat" where
  "token_rows a db = length (filter (\<lambda>t. contract_address t = a) (db_tokens db))"

text \<open>
  The store after a scan that went through to the commit: one Token row and one Signal
  row appended.
\<close>

definition persisted :: "string \<Rightarrow> scan_env \<Rightarrow> token_metadata \<Rightarrow> store \<Rightarrow> store" where
  "persisted a env meta db =
     (let count = int (length (smart_wallet_matches db (get_token_signers (signers_response env))))
      in db\<lparr>db_tokens := db_tokens db @ [new_token a meta],
             db_signals := db_signals db
                @ [new_signal a count (signal_clock env) (next_signal_id (db_signals db))]\<rparr>)"

section \<open>Sample data for concrete runs\<close>

text \<open>
  A store with two active tracked wallets and no token, and the observations of a scan
  of a token created 20 seconds earlier in which both wallets have swapped.
  \<open>rival_insert\<close> is another writer creating the Token row of the same address.
\<close>

definition sample_wallet :: "string \<Rightarrow> TrackedWallet" where
  "sample_wallet a =
     \<lparr>address = a, label = ''whale'', win_rate = None, wallet_status = active,
      source = Some ''manual'', tracked_at = 0\<rparr>"

definition sample_store :: store where
  "sample_store =
     \<lparr>db_tracked_wallets = [sample_wallet ''W1'', sample_wallet ''W2''],
      db_tokens = [], db_signals = [], db_candidates = []\<rparr>"

definition swap_by :: "string \<Rightarrow> tx" where
  "swap_by a =
     \<lparr>tx_type = Some ''SWAP'', tx_source = Some ''PUMP_AMM'', feePayer = Some a,
      tx_timestamp = Some 1700000100\<rparr>"

definition sample_env :: scan_env where
  "sample_env =
     \<lparr>metadata_clock = 1700000120000000,
      metadata_response = Tx_list [swap_by ''W1'', swap_by ''Dev''],
      das_symbol_found = Some ''PEPE'',
      scan_clock = 1700000121000000,
      signers_response = Tx_list [swap_by ''W1'', swap_by ''W2'', swap_by ''W1''],
      signal_clock = 1700000122000000\<rparr>"

definition rival_token :: "string \<Rightarrow> Token" where
  "rival_token a =
     \<lparr>contract_address = a, symbol = ''PEPE'', created_at = 1700000100000000,
      dev_address = ''Dev'', market_cap_at_scan = 0, status = bonding_curve\<rparr>"

definition rival_insert :: "string \<Rightarrow> store \<Rightarrow> store" where
  "rival_insert a db = db\<lparr>db_tokens := db_tokens db @ [rival_token a]\<rparr>"

(*DEFS*)

section \<open>Properties of the price tracker\<close>

lemma lower_raydium: "lower ''raydium'' = ''raydium''"
  by (simp add: lower_def lower_char_def code_point_def)

lemma lower_pumpfun: "lower ''pumpfun'' = ''pumpfun''"
  by (simp add: lower_def lower_char_def code_point_def)

lemma determine_status_cases:
  "determine_status pr cur = cur \<or> determine_status pr cur = rugged
   \<or> determine_status pr cur = graduated"
  by (simp add: determine_status_def Let_def split: option.split)

lemma update_token_status:
  "status (update_token pd t) = determine_status (pd (contract_address t)) (status t)"
  by (simp add: update_token_def Let_def split: option.split)

lemma update_token_address:
  "contract_address (update_token pd t) = contract_address t"
  by (simp add: update_token_def Let_def split: option.split)

lemma sweep_length: "length (price_sweep now pd ts) = length ts"
  by (simp add: price_sweep_def)

lemma sweep_nth_rugged:
  "i < length ts \<Longrightarrow> status (ts ! i) = rugged \<Longrightarrow> price_sweep now pd ts ! i = ts ! i"
  by (simp add: price_sweep_def swept_def)

lemma sweep_nth_status:
  "i < length ts \<Longrightarrow>
   status (price_sweep now pd ts ! i) = status (ts ! i)
   \<or> status (price_sweep now pd ts ! i) = rugged
   \<or> status (price_sweep now pd ts ! i) = graduated"
  using determine_status_cases [of "pd (contract_address (ts ! i))" "status (ts ! i)"]
  by (auto simp add: price_sweep_def update_token_status)

lemma sweeps_length: "length (price_sweeps steps ts) = length ts"
  by (induction steps arbitrary: ts)
     (simp_all add: price_sweeps_def sweep_length split: prod.split)

lemma sweeps_rugged:
  "i < length ts \<Longrightarrow> status (ts ! i) = rugged \<Longrightarrow> price_sweeps steps ts ! i = ts ! i"
proof (induction steps arbitrary: ts)
  case Nil
  then show ?case by (simp add: price_sweeps_def)
next
  case (Cons s steps)
  obtain now pd where s: "s = (now, pd)" by (cases s)
  have eq: "price_sweeps (s # steps) ts = price_sweeps steps (price_sweep now pd ts)"
    by (simp add: price_sweeps_def s)
  have keep: "price_sweep now pd ts ! i = ts ! i"
    using Cons.prems by (rule sweep_nth_rugged)
  have "price_sweeps steps (price_sweep now pd ts) ! i = price_sweep now pd ts ! i"
    using Cons.prems keep by (intro Cons.IH) (simp_all add: sweep_length)
  then show ?case by (simp add: eq keep)
qed

lemma sweeps_not_back:
  "i < length ts \<Longrightarrow> status (ts ! i) \<noteq> bonding_curve \<Longrightarrow>
   status (price_sweeps steps ts ! i) \<noteq> bonding_curve"
proof (induction steps arbitrary: ts)
  case Nil
  then show ?case by (simp add: price_sweeps_def)
next
  case (Cons s steps)
  obtain now pd where s: "s = (now, pd)" by (cases s)
  have eq: "price_sweeps (s # steps) ts = price_sweeps steps (price_sweep now pd ts)"
    by (simp add: price_sweeps_def s)
  have "status (price_sweep now pd ts ! i) \<noteq> bonding_curve"
    using sweep_nth_status [OF Cons.prems(1), of now pd] Cons.prems(2) by auto
  then have "status (price_sweeps steps (price_sweep now pd ts) ! i) \<noteq> bonding_curve"
    using Cons.prems(1) by (intro Cons.IH) (simp_all add: sweep_length)
  then show ?case by (simp add: eq)
qed

text \<open>
  Claim C4, as the code has it. The status rule is a cascade and the first branch that
  applies decides: no pair leaves the status unchanged; a market cap below 500, or a
  positive market cap with liquidity below 100, gives \<open>rugged\<close>; only when that branch
  does not apply does an allow-listed venue at 50000 or more, or any venue at 100000 or
  more, give \<open>graduated\<close>; otherwise the status is unchanged. So 400 with liquidity 50
  is rugged, and 60000 on an allow-listed venue or 150000 on any venue is graduated
  when the liquidity is at least 100.
\<close>

theorem determine_status_cascade:
  "determine_status None cur = cur
   \<and> (pair_mc p < 500 \<or> (pair_mc p > 0 \<and> pair_liquidity p < 100)
        \<longrightarrow> determine_status (Some p) cur = rugged)
   \<and> (\<not> (pair_mc p < 500 \<or> (pair_mc p > 0 \<and> pair_liquidity p < 100))
        \<and> pair_dex p \<in> graduated_dexes \<and> pair_mc p \<ge> 50000
        \<longrightarrow> determine_status (Some p) cur = graduated)
   \<and> (\<not> (pair_mc p < 500 \<or> (pair_mc p > 0 \<and> pair_liquidity p < 100))
        \<and> pair_mc p \<ge> 100000
        \<longrightarrow> determine_status (Some p) cur = graduated)
   \<and> (\<not> (pair_mc p < 500 \<or> (pair_mc p > 0 \<and> pair_liquidity p < 100))
        \<and> \<not> (pair_dex p \<in> graduated_dexes \<and> pair_mc p \<ge> 50000)
        \<and> \<not> pair_mc p \<ge> 100000
        \<longrightarrow> determine_status (Some p) cur = cur)
   \<and> (pair_mc p = 400 \<and> pair_liquidity p = 50
        \<longrightarrow> determine_status (Some p) cur = rugged)
   \<and> (pair_dex p \<in> graduated_dexes \<and> pair_mc p = 60000 \<and> pair_liquidity p \<ge> 100
        \<longrightarrow> determine_status (Some p) cur = graduated)
   \<and> (pair_mc p = 150000 \<and> pair_liquidity p \<ge> 100
        \<longrightarrow> determine_status (Some p) cur = graduated)"
  by (simp add: determine_status_def GRADUATED_MC_def RUGGED_MC_def Let_def)

text \<open>
  The cascade at work: 60000 on Raydium with liquidity 250 graduates a bonding-curve
  token, and 150000 on a venue outside the allow-list does too.
\<close>

theorem determine_status_cascade_witness:
  "determine_status
     (Some \<lparr>marketCap = Some 60000, fdv = None, dexId = Some ''raydium'',
            liquidity = Some (Some 250)\<rparr>) bonding_curve = graduated
   \<and> determine_status
     (Some \<lparr>marketCap = None, fdv = Some 150000, dexId = Some ''pumpfun'',
            liquidity = Some (Some 250)\<rparr>) bonding_curve = graduated"
  using determine_status_cascade
          [where p = "\<lparr>marketCap = Some 60000, fdv = None, dexId = Some ''raydium'',
                liquidity = Some (Some 250)\<rparr>" and cur = bonding_curve]
        determine_status_cascade
          [where p = "\<lparr>marketCap = None, fdv = Some 150000, dexId = Some ''pumpfun'',
                liquidity = Some (Some 250)\<rparr>" and cur = bonding_curve]
  by (simp add: pair_mc_def pair_liquidity_def pair_dex_def graduated_dexes_def
        lower_raydium lower_pumpfun)

text \<open>
  Read clause by clause, claim C4 fails: a pair on Raydium at 60000 whose liquidity is 50
  meets "allow-listed venue with market cap at least 50000" and is set to \<open>rugged\<close>.
\<close>

theorem determine_status_listed_60000_rugged:
  "pair_dex \<lparr>marketCap = Some 60000, fdv = None, dexId = Some ''raydium'',
             liquidity = Some (Some 50)\<rparr> \<in> graduated_dexes
   \<and> pair_mc \<lparr>marketCap = Some 60000, fdv = None, dexId = Some ''raydium'',
             liquidity = Some (Some 50)\<rparr> = 60000
   \<and> determine_status
        (Some \<lparr>marketCap = Some 60000, fdv = None, dexId = Some ''raydium'',
               liquidity = Some (Some 50)\<rparr>) bonding_curve = rugged
   \<and> rugged \<noteq> graduated"
  by (simp add: determine_status_def pair_mc_def pair_liquidity_def pair_dex_def
        graduated_dexes_def lower_raydium GRADUATED_MC_def RUGGED_MC_def)

text \<open>
  Claim C5, as the code has it. A sweep never loads a rugged token, so through any
  number of sweeps a rugged token keeps its whole row; a graduated token is still
  swept, and after any number of sweeps it is graduated or rugged, never back on the
  bonding curve.
\<close>

theorem price_sweeps_terminal:
  "i < length tokens \<Longrightarrow>
   length (price_sweeps steps tokens) = length tokens
   \<and> (status (tokens ! i) = rugged \<longrightarrow> price_sweeps steps tokens ! i = tokens ! i)
   \<and> (status (tokens ! i) = graduated \<longrightarrow>
        status (price_sweeps steps tokens ! i) = graduated
        \<or> status (price_sweeps steps tokens ! i) = rugged)"
proof (intro conjI impI)
  show "length (price_sweeps steps tokens) = length tokens"
    by (rule sweeps_length)
next
  assume "i < length tokens" and "status (tokens ! i) = rugged"
  then show "price_sweeps steps tokens ! i = tokens ! i"
    by (rule sweeps_rugged)
next
  assume i: "i < length tokens" and g: "status (tokens ! i) = graduated"
  then have "status (price_sweeps steps tokens ! i) \<noteq> bonding_curve"
    by (intro sweeps_not_back) simp_all
  then show "status (price_sweeps steps tokens ! i) = graduated
             \<or> status (price_sweeps steps tokens ! i) = rugged"
    by (cases "status (price_sweeps steps tokens ! i)") simp_all
qed

text \<open>
  Two sweeps over a rugged token and a graduated one: the rugged row is untouched even
  though its pair shows 150000, the graduated row ends rugged or graduated.
\<close>

theorem price_sweeps_terminal_witness:
  "price_sweeps
     [(1000000, [''A'' \<mapsto> \<lparr>marketCap = Some 150000, fdv = None, dexId = Some ''raydium'',
                             liquidity = Some (Some 250)\<rparr>]),
      (2000000, Map.empty)]
     [\<lparr>contract_address = ''A'', symbol = ''A'', created_at = 0, dev_address = ''d'',
       market_cap_at_scan = 0, status = rugged\<rparr>] ! 0
   = \<lparr>contract_address = ''A'', symbol = ''A'', created_at = 0, dev_address = ''d'',
       market_cap_at_scan = 0, status = rugged\<rparr>"
  using price_sweeps_terminal
          [of 0 "[\<lparr>contract_address = ''A'', symbol = ''A'', created_at = 0,
                   dev_address = ''d'', market_cap_at_scan = 0, status = rugged\<rparr>]"
              "[(1000000, [''A'' \<mapsto> \<lparr>marketCap = Some 150000, fdv = None,
                   dexId = Some ''raydium'', liquidity = Some (Some 250)\<rparr>]),
                (2000000, Map.empty)]"]
  by simp

text \<open>
  Claim C5 as stated fails: one sweep moves a graduated token whose pair shows a market
  cap of 400 to \<open>rugged\<close>.
\<close>

theorem price_sweep_graduated_to_rugged:
  "map status
     (price_sweep 1000000
        [''T'' \<mapsto> \<lparr>marketCap = Some 400, fdv = None, dexId = Some ''raydium'',
                     liquidity = Some (Some 50)\<rparr>]
        [\<lparr>contract_address = ''T'', symbol = ''T'', created_at = 0, dev_address = ''d'',
          market_cap_at_scan = 60000, status = graduated\<rparr>])
   = [rugged]"
  by (simp add: price_sweep_def swept_def STALE_HOURS_def update_token_def
        determine_status_def pair_mc_def RUGGED_MC_def)

section \<open>Properties of the listener\<close>

lemma first_address_find:
  "first_address parts = List.find is_address (map cleaned_part parts)"
  by (induction parts) (simp_all add: Let_def)

lemma find_append:
  "List.find P (xs @ ys) =
     (case List.find P xs of Some x \<Rightarrow> Some x | None \<Rightarrow> List.find P ys)"
  by (induction xs) simp_all

lemma extract_is_spec:
  "extract_token_address_from_logs logs = spec_log_extraction create_marker logs"
  by (induction logs)
     (simp_all add: spec_log_extraction_def first_address_find find_append
        split: option.split)

text \<open>
  Claim C8, as the code has it. On a list of log lines in which every line containing
  "InitializeMint" also contains "Create" or "create", the extraction returns the first
  token, over the lines containing "Create", "create" or "InitializeMint" in order,
  whose stripped form has between 32 and 44 characters and is alphanumeric, or none
  when there is no such token. The marker is matched in these spellings only.
\<close>

theorem extract_from_marked_lines:
  assumes "\<forall>msg \<in> set logs. str_in ''InitializeMint'' msg \<longrightarrow> create_marker msg"
  shows "extract_token_address_from_logs logs =
           spec_log_extraction
             (\<lambda>msg. create_marker msg \<or> str_in ''InitializeMint'' msg) logs"
proof -
  have "filter (\<lambda>msg. create_marker msg \<or> str_in ''InitializeMint'' msg) logs
          = filter create_marker logs"
    using assms by (intro filter_cong) auto
  then show ?thesis
    by (simp add: extract_is_spec spec_log_extraction_def)
qed

text \<open>
  Two lines, the first without a marker: the address is taken from the second, with
  its brackets and comma stripped.
\<close>

theorem extract_from_marked_lines_witness:
  "extract_token_address_from_logs
     [''Program log: hello So11111111111111111111111111111111111111112'',
      ''Program log: Create: (So11111111111111111111111111111111111111112),'']
   = Some ''So11111111111111111111111111111111111111112''"
proof -
  have h: "\<forall>msg \<in> set
       [''Program log: hello So11111111111111111111111111111111111111112'',
        ''Program log: Create: (So11111111111111111111111111111111111111112),''].
       str_in ''InitializeMint'' msg \<longrightarrow> create_marker msg"
    by code_simp
  have "spec_log_extraction (\<lambda>msg. create_marker msg \<or> str_in ''InitializeMint'' msg)
       [''Program log: hello So11111111111111111111111111111111111111112'',
        ''Program log: Create: (So11111111111111111111111111111111111111112),'']
     = Some ''So11111111111111111111111111111111111111112''"
    by code_simp
  with extract_from_marked_lines [OF h] show ?thesis
    by simp
qed

text \<open>
  Claim C8 as stated fails on the casing: a line whose marker is written "CREATE" is a
  marked line for the specification, and the code does not scan it.
\<close>

theorem extract_ignores_upper_case_marker:
  "extract_token_address_from_logs
     [''Program log: CREATE So11111111111111111111111111111111111111112''] = None
   \<and> spec_log_extraction claimed_marker
     [''Program log: CREATE So11111111111111111111111111111111111111112'']
     = Some ''So11111111111111111111111111111111111111112''"
  by code_simp

lemma cap_seen_rev:
  "length seen > 5000 \<Longrightarrow> cap_seen rev seen = rev (take 2000 seen)"
  by (simp add: cap_seen_def Let_def drop_rev)

lemma cap_seen_size:
  "length (order seen) = length seen \<Longrightarrow> length (cap_seen order seen) \<le> 5000"
  by (simp add: cap_seen_def Let_def)

lemma cap_seen_subset:
  "set (order seen) = set seen \<Longrightarrow> set (cap_seen order seen) \<subseteq> set seen"
  by (auto simp add: cap_seen_def Let_def dest: in_set_dropD)

lemma cap_seen_insertion_order:
  "length seen > 5000 \<Longrightarrow> set (cap_seen (\<lambda>l. l) seen) = most_recent 2000 seen"
  by (simp add: cap_seen_def most_recent_def)

lemma sig_no_eq: "sig_no m = sig_no n \<longleftrightarrow> m = n"
proof
  assume "sig_no m = sig_no n"
  then have "length (sig_no m) = length (sig_no n)" by simp
  then show "m = n" by (simp add: sig_no_def)
qed simp

lemma newest_dropped:
  assumes "n > 5000"
  shows "sig_no (n - 1) \<in> most_recent 2000 (map sig_no [0..<n])
         \<and> sig_no (n - 1) \<notin> set (cap_seen rev (map sig_no [0..<n]))"
proof -
  have kept: "set (cap_seen rev (map sig_no [0..<n])) = sig_no ` {0..<2000}"
    using assms by (simp add: cap_seen_rev take_map)
  have recent: "most_recent 2000 (map sig_no [0..<n]) = sig_no ` {n - 2000..<n}"
    by (simp add: most_recent_def drop_map)
  show ?thesis
    using assms by (auto simp add: kept recent sig_no_eq image_iff)
qed

text \<open>
  Claim C9 at a failing input. The set holds 5001 signatures, \<open>sig_no 0\<close> added first
  and \<open>sig_no 5000\<close> last, and iterates newest first. The signature seen last is among
  the 2000 most recent, and the truncation drops it: what is kept are the last 2000 of
  the iteration order, here the 2000 oldest.
\<close>

theorem cap_seen_drops_newest:
  "sig_no 5000 \<in> most_recent 2000 (map sig_no [0..<5001])
   \<and> sig_no 5000 \<notin> set (cap_seen rev (map sig_no [0..<5001]))"
  using newest_dropped [of 5001] by (simp del: upt_rec_numeral)

section \<open>Properties of the analyzer\<close>

lemma scan_new_token_unfold:
  "scan_new_token a env db =
     (if session_get_token db a \<noteq> None then (Already_scanned, db)
      else case get_token_metadata a (metadata_clock env) (metadata_response env)
                  (das_symbol_found env) of
             None \<Rightarrow> (No_metadata, db)
           | Some meta \<Rightarrow>
               if scan_clock env - meta_created_at meta > 600000000 then (Too_old, db)
               else if int (length (smart_wallet_matches db
                        (get_token_signers (signers_response env)))) < 2
                    then (Too_few_wallets, db)
                    else (Signal_generated, persisted a env meta db))"
  by (simp add: scan_new_token_def scan_new_token_among_def commit_token_signal_def
        Let_def new_token_def persisted_def split: option.split)

lemma session_get_token_persisted:
  "session_get_token (persisted a env meta db) a \<noteq> None"
proof -
  have "new_token a meta \<in> set (db_tokens (persisted a env meta db))"
    by (simp add: persisted_def Let_def)
  moreover have "contract_address (new_token a meta) = a"
    by (simp add: new_token_def)
  ultimately show ?thesis
    unfolding session_get_token_def find_None_iff by blast
qed

lemma scan_dedup:
  "session_get_token db a \<noteq> None \<Longrightarrow> scan_new_token a env db = (Already_scanned, db)"
  by (simp add: scan_new_token_unfold)

lemma scan_store_cases:
  "snd (scan_new_token a env db) = db
   \<or> (session_get_token db a = None
       \<and> (\<exists>meta. snd (scan_new_token a env db) = persisted a env meta db))"
  by (auto simp add: scan_new_token_unfold split: option.split)

lemma deliver_Cons:
  "deliver a (env # envs) db = deliver a envs (snd (scan_new_token a env db))"
  by (simp add: deliver_def)

lemma deliver_present:
  "session_get_token db a \<noteq> None \<Longrightarrow> deliver a envs db = db"
  by (induction envs) (simp_all add: deliver_def scan_dedup)

lemma deliver_once: "deliver a [env] db = snd (scan_new_token a env db)"
  by (simp add: deliver_def)

lemma deliver_is_one_delivery:
  "envs \<noteq> [] \<Longrightarrow> \<exists>env \<in> set envs. deliver a envs db = snd (scan_new_token a env db)"
proof (induction envs)
  case Nil
  then show ?case by simp
next
  case (Cons e envs)
  show ?case
  proof (cases "snd (scan_new_token a e db) = db")
    case True
    show ?thesis
    proof (cases "envs = []")
      case True
      then show ?thesis by (simp add: deliver_once)
    next
      case False
      then obtain env where "env \<in> set envs" "deliver a envs db = snd (scan_new_token a env db)"
        using Cons.IH by blast
      then show ?thesis using True by (auto simp add: deliver_Cons)
    qed
  next
    case False
    then obtain meta where "snd (scan_new_token a e db) = persisted a e meta db"
      using scan_store_cases [of a e db] by auto
    then have "deliver a (e # envs) db = snd (scan_new_token a e db)"
      by (simp add: deliver_Cons deliver_present session_get_token_persisted)
    then show ?thesis by simp
  qed
qed

lemma scan_idem:
  "snd (scan_new_token a env (snd (scan_new_token a env db))) = snd (scan_new_token a env db)"
  using scan_store_cases [of a env db]
  by (auto simp add: scan_dedup session_get_token_persisted)

lemma deliver_replicate:
  "deliver a (replicate (Suc n) env) db = snd (scan_new_token a env db)"
proof (induction n)
  case 0
  show ?case by (simp add: deliver_once)
next
  case (Suc n)
  have "deliver a (replicate (Suc (Suc n)) env) db
        = deliver a (replicate (Suc n) env @ [env]) db"
    by (simp add: replicate_append_same)
  also have "\<dots> = snd (scan_new_token a env (deliver a (replicate (Suc n) env) db))"
    by (simp add: deliver_def)
  also have "\<dots> = snd (scan_new_token a env db)"
    by (simp only: Suc scan_idem)
  finally show ?case .
qed

lemma token_rows_present:
  "token_rows a db = 0 \<longleftrightarrow> session_get_token db a = None"
  by (auto simp add: token_rows_def session_get_token_def find_None_iff filter_empty_conv)

lemma token_rows_persisted:
  "token_rows a (persisted a env meta db) = Suc (token_rows a db)"
  by (simp add: token_rows_def persisted_def Let_def new_token_def)

lemma token_rows_scan:
  "token_rows a (snd (scan_new_token a env db)) \<le> max 1 (token_rows a db)"
  using scan_store_cases [of a env db]
  by (auto simp add: token_rows_persisted token_rows_present)

lemma token_rows_deliver:
  "token_rows a (deliver a envs db) \<le> max 1 (token_rows a db)"
proof (induction envs arbitrary: db)
  case Nil
  show ?case by (simp add: deliver_def)
next
  case (Cons e envs)
  have "token_rows a (deliver a (e # envs) db)
        \<le> max 1 (token_rows a (snd (scan_new_token a e db)))"
    by (simp only: deliver_Cons Cons.IH)
  also have "\<dots> \<le> max 1 (token_rows a db)"
    using token_rows_scan [of a e db] by simp
  finally show ?case .
qed

lemmas sample_defs = session_get_token_def get_token_metadata_def resolve_creation_def
  created_from_def fromtimestamp_def from_pump_def pump_sources_def get_or_def
  get_token_signers_def is_signer_tx_def smart_wallet_matches_def persisted_def new_token_def
  new_signal_def confidence_of_def next_signal_id_def sample_env_def sample_store_def
  sample_wallet_def swap_by_def Let_def

text \<open>
  Claim C1. A scan of an address that has a Token row returns at the dedup check and
  leaves the store as it is, and so does any sequence of deliveries; the number of Token
  rows of the address after any sequence of deliveries is at most one when it was at
  most one; the store after a non-empty sequence of deliveries, whatever each of them
  observes, is the store after one of these deliveries alone; and a delivery repeated
  any number of times leaves what a single one leaves.
\<close>

theorem scan_delivery_idempotent:
  "(session_get_token db a \<noteq> None \<longrightarrow>
      scan_new_token a env db = (Already_scanned, db) \<and> deliver a envs db = db)
   \<and> token_rows a (deliver a envs db) \<le> max 1 (token_rows a db)
   \<and> (envs \<noteq> [] \<longrightarrow>
        (\<exists>e \<in> set envs. deliver a envs db = snd (scan_new_token a e db)))
   \<and> deliver a (replicate (Suc n) env) db = deliver a [env] db"
proof (intro conjI impI)
  assume "session_get_token db a \<noteq> None"
  then show "scan_new_token a env db = (Already_scanned, db)" and "deliver a envs db = db"
    by (simp_all add: scan_dedup deliver_present)
next
  show "token_rows a (deliver a envs db) \<le> max 1 (token_rows a db)"
    by (rule token_rows_deliver)
next
  assume "envs \<noteq> []"
  then show "\<exists>e \<in> set envs. deliver a envs db = snd (scan_new_token a e db)"
    by (rule deliver_is_one_delivery)
next
  show "deliver a (replicate (Suc n) env) db = deliver a [env] db"
    by (simp only: deliver_replicate deliver_once)
qed

text \<open>Three deliveries of the sample candidate leave the store of one, with one Token row.\<close>

theorem scan_delivery_idempotent_witness:
  "deliver ''Mint'' [sample_env, sample_env, sample_env] sample_store
     = deliver ''Mint'' [sample_env] sample_store
   \<and> token_rows ''Mint'' (deliver ''Mint'' [sample_env, sample_env, sample_env] sample_store) = 1"
proof -
  have same: "deliver ''Mint'' [sample_env, sample_env, sample_env] sample_store
                = deliver ''Mint'' [sample_env] sample_store"
    using scan_delivery_idempotent
            [where db = sample_store and a = "''Mint''" and env = sample_env and n = 2]
    by (simp add: numeral_2_eq_2)
  have "token_rows ''Mint'' (deliver ''Mint'' [sample_env] sample_store) = 1"
    by (simp add: deliver_once scan_new_token_unfold token_rows_def sample_defs)
  with same show ?thesis by simp
qed

text \<open>
  Claim C2. A scan that reaches the scoring step with \<open>n\<close> matched active wallets
  (no Token row yet, metadata resolved, age within ten minutes, \<open>n\<close> at least 2) appends
  one Token and one Signal whose confidence score is \<open>min 100 (50 + 10 * n)\<close>, a value
  between 50 and 100; with \<open>n\<close> below 2 the scan returns with the store unchanged.
\<close>

theorem scan_confidence_score:
  assumes "session_get_token db a = None"
    and "get_token_metadata a (metadata_clock env) (metadata_response env)
           (das_symbol_found env) = Some meta"
    and "\<not> scan_clock env - meta_created_at meta > 10 * 60 * 1000000"
    and "n = int (length (smart_wallet_matches db (get_token_signers (signers_response env))))"
  shows "(2 \<le> n \<longrightarrow>
           (\<exists>tok sig.
              scan_new_token a env db
                = (Signal_generated,
                   db\<lparr>db_tokens := db_tokens db @ [tok], db_signals := db_signals db @ [sig]\<rparr>)
              \<and> contract_address tok = a \<and> token_address sig = a
              \<and> smart_wallet_count sig = n
              \<and> confidence_score sig = min 100 (50 + 10 * n)
              \<and> 50 \<le> confidence_score sig \<and> confidence_score sig \<le> 100))
         \<and> (n < 2 \<longrightarrow> scan_new_token a env db = (Too_few_wallets, db))"
proof (intro conjI impI)
  assume n: "2 \<le> n"
  let ?tok = "new_token a meta"
  let ?sig = "new_signal a n (signal_clock env) (next_signal_id (db_signals db))"
  have "scan_new_token a env db
          = (Signal_generated,
             db\<lparr>db_tokens := db_tokens db @ [?tok], db_signals := db_signals db @ [?sig]\<rparr>)"
    using assms n by (simp add: scan_new_token_unfold persisted_def Let_def)
  moreover have "contract_address ?tok = a" and "token_address ?sig = a"
    and "smart_wallet_count ?sig = n"
    by (simp_all add: new_token_def new_signal_def)
  moreover have "confidence_score ?sig = min 100 (50 + 10 * n)"
    by (simp add: new_signal_def confidence_of_def min.commute mult.commute)
  moreover have "50 \<le> confidence_score ?sig" and "confidence_score ?sig \<le> 100"
    using n by (simp_all add: new_signal_def confidence_of_def)
  ultimately show "\<exists>tok sig.
      scan_new_token a env db
        = (Signal_generated,
           db\<lparr>db_tokens := db_tokens db @ [tok], db_signals := db_signals db @ [sig]\<rparr>)
      \<and> contract_address tok = a \<and> token_address sig = a
      \<and> smart_wallet_count sig = n
      \<and> confidence_score sig = min 100 (50 + 10 * n)
      \<and> 50 \<le> confidence_score sig \<and> confidence_score sig \<le> 100"
    by blast
next
  assume "n < 2"
  then show "scan_new_token a env db = (Too_few_wallets, db)"
    using assms by (simp add: scan_new_token_unfold)
qed

text \<open>The sample scan matches two wallets and persists a Signal of confidence 70.\<close>

theorem scan_confidence_score_witness:
  "fst (scan_new_token ''Mint'' sample_env sample_store) = Signal_generated
   \<and> map confidence_score (db_signals (snd (scan_new_token ''Mint'' sample_env sample_store)))
       = [70]"
proof -
  let ?meta = "\<lparr>meta_symbol = ''PEPE'', meta_created_at = 1700000100000000,
                meta_dev_address = ''Dev'', meta_market_cap = 0\<rparr>"
  have h1: "session_get_token sample_store ''Mint'' = None"
    by (simp add: sample_defs)
  have h2: "get_token_metadata ''Mint'' (metadata_clock sample_env)
              (metadata_response sample_env) (das_symbol_found sample_env) = Some ?meta"
    by (simp add: sample_defs)
  have h3: "\<not> scan_clock sample_env - meta_created_at ?meta > 10 * 60 * 1000000"
    by (simp add: sample_defs)
  have h4: "(2::int) = int (length (smart_wallet_matches sample_store
              (get_token_signers (signers_response sample_env))))"
    by (simp add: sample_defs)
  from scan_confidence_score [OF h1 h2 h3 h4] show ?thesis
    by (auto simp add: sample_store_def)
qed

text \<open>Whatever else a scan observes, fewer than two matches leave the store unchanged.\<close>

lemma few_matches_nothing_persisted:
  "int (length (smart_wallet_matches db (get_token_signers (signers_response env)))) < 2
   \<Longrightarrow> snd (scan_new_token a env db) = db"
  by (simp add: scan_new_token_unfold split: option.split)

text \<open>
  Claim C3. For a candidate with no Token row whose metadata fetch succeeds, the scan
  returns at the age filter exactly when the scan's clock reading less the creation
  time is more than ten minutes; otherwise it goes on to the cross-reference. An age of
  10 minutes 1 second is discarded, an age of 9 minutes 59 seconds is not.
\<close>

theorem scan_age_filter:
  assumes "session_get_token db a = None"
    and "get_token_metadata a (metadata_clock env) (metadata_response env)
           (das_symbol_found env) = Some meta"
  shows "(fst (scan_new_token a env db) = Too_old
            \<longleftrightarrow> scan_clock env - meta_created_at meta > 10 * 60 * 1000000)
         \<and> (\<not> scan_clock env - meta_created_at meta > 10 * 60 * 1000000 \<longrightarrow>
              fst (scan_new_token a env db) = Too_few_wallets
              \<or> fst (scan_new_token a env db) = Signal_generated)
         \<and> (scan_clock env - meta_created_at meta = (10 * 60 + 1) * 1000000 \<longrightarrow>
              scan_new_token a env db = (Too_old, db))
         \<and> (scan_clock env - meta_created_at meta = (9 * 60 + 59) * 1000000 \<longrightarrow>
              fst (scan_new_token a env db) \<noteq> Too_old)"
  using assms by (simp add: scan_new_token_unfold)

text \<open>The sample token, created at 1700000100 s, scanned 601 s and 599 s later.\<close>

theorem scan_age_filter_witness:
  "fst (scan_new_token ''Mint'' (sample_env\<lparr>scan_clock := 1700000701000000\<rparr>) sample_store)
     = Too_old
   \<and> fst (scan_new_token ''Mint'' (sample_env\<lparr>scan_clock := 1700000699000000\<rparr>)
          sample_store) \<noteq> Too_old"
proof -
  let ?meta = "\<lparr>meta_symbol = ''PEPE'', meta_created_at = 1700000100000000,
                meta_dev_address = ''Dev'', meta_market_cap = 0\<rparr>"
  let ?late = "sample_env\<lparr>scan_clock := 1700000701000000\<rparr>"
  let ?early = "sample_env\<lparr>scan_clock := 1700000699000000\<rparr>"
  have h1: "session_get_token sample_store ''Mint'' = None"
    by (simp add: sample_defs)
  have late: "get_token_metadata ''Mint'' (metadata_clock ?late) (metadata_response ?late)
                (das_symbol_found ?late) = Some ?meta"
    by (simp add: sample_defs)
  have early: "get_token_metadata ''Mint'' (metadata_clock ?early) (metadata_response ?early)
                (das_symbol_found ?early) = Some ?meta"
    by (simp add: sample_defs)
  from scan_age_filter [OF h1 late] scan_age_filter [OF h1 early] show ?thesis
    by (simp add: sample_env_def)
qed

text \<open>
  Claim C10, as the code has it. When the transaction request of the metadata fetch
  brings an empty list, the metadata is resolved with the clock reading taken in
  \<^verbatim>\<open>get_token_metadata\<close> as creation time and \<^verbatim>\<open>"unknown"\<close> as dev address; the
  candidate then passes the age filter and reaches the cross-reference provided the
  scan's own clock reading, taken after the symbol lookup, is at most ten minutes
  later.
\<close>

theorem empty_history_metadata:
  assumes "fetch_enhanced_transactions (metadata_response env) = Some []"
  shows "get_token_metadata a (metadata_clock env) (metadata_response env)
             (das_symbol_found env)
           = Some \<lparr>meta_symbol = get_or (das_symbol_found env) (take 6 a),
                   meta_created_at = metadata_clock env,
                   meta_dev_address = ''unknown'', meta_market_cap = 0\<rparr>
         \<and> (session_get_token db a = None
              \<and> scan_clock env - metadata_clock env \<le> 10 * 60 * 1000000 \<longrightarrow>
              fst (scan_new_token a env db) = Too_few_wallets
              \<or> fst (scan_new_token a env db) = Signal_generated)"
  using assms
  by (simp add: scan_new_token_unfold get_token_metadata_def resolve_creation_def)

text \<open>An empty history, and a scan clock one second after the metadata clock.\<close>

theorem empty_history_metadata_witness:
  "get_token_metadata ''Mint'' 1700000120000000 (Tx_list []) (Some ''PEPE'')
     = Some \<lparr>meta_symbol = ''PEPE'', meta_created_at = 1700000120000000,
             meta_dev_address = ''unknown'', meta_market_cap = 0\<rparr>
   \<and> (fst (scan_new_token ''Mint'' (sample_env\<lparr>metadata_response := Tx_list []\<rparr>)
            sample_store) = Too_few_wallets
        \<or> fst (scan_new_token ''Mint'' (sample_env\<lparr>metadata_response := Tx_list []\<rparr>)
            sample_store) = Signal_generated)"
proof -
  let ?env = "sample_env\<lparr>metadata_response := Tx_list []\<rparr>"
  have h: "fetch_enhanced_transactions (metadata_response ?env) = Some []"
    by simp
  have absent: "session_get_token sample_store ''Mint'' = None"
    by (simp add: sample_defs)
  from empty_history_metadata [OF h, of "''Mint''" sample_store] absent show ?thesis
    by (simp add: sample_env_def get_or_def)
qed

text \<open>
  Claim C10 as stated fails when the two clock readings are more than ten minutes
  apart: the history is empty, the metadata clock reads 1700000120 s, the scan clock
  601 s more, and the candidate is dropped as too old.
\<close>

theorem empty_history_too_old:
  "fetch_enhanced_transactions
      (metadata_response (sample_env\<lparr>metadata_response := Tx_list [],
          scan_clock := 1700000721000000\<rparr>)) = Some []
   \<and> scan_new_token ''Mint''
        (sample_env\<lparr>metadata_response := Tx_list [], scan_clock := 1700000721000000\<rparr>)
        sample_store
      = (Too_old, sample_store)"
  by (simp add: scan_new_token_unfold sample_defs)

text \<open>
  Whatever other writers do during the two suspensions, the scan itself writes nothing
  or appends exactly one Token row and one Signal row.
\<close>

lemma scan_among_atomic:
  "snd (scan_new_token_among w1 w2 a env db) = db
   \<or> snd (scan_new_token_among w1 w2 a env db) = w1 db
   \<or> snd (scan_new_token_among w1 w2 a env db) = w2 (w1 db)
   \<or> (fst (scan_new_token_among w1 w2 a env db) = Signal_generated
       \<and> (\<exists>tok sig. contract_address tok = a \<and> token_address sig = a
             \<and> snd (scan_new_token_among w1 w2 a env db)
                 = (w2 (w1 db))\<lparr>db_tokens := db_tokens (w2 (w1 db)) @ [tok],
                                 db_signals := db_signals (w2 (w1 db)) @ [sig]\<rparr>))"
proof (cases "get_token_metadata a (metadata_clock env) (metadata_response env)
                (das_symbol_found env)")
  case None
  then show ?thesis
    by (simp add: scan_new_token_among_def Let_def)
next
  case (Some meta)
  let ?db2 = "w2 (w1 db)"
  let ?count = "int (length (smart_wallet_matches ?db2
                   (get_token_signers (signers_response env))))"
  let ?tok = "new_token a meta"
  let ?sig = "new_signal a ?count (signal_clock env) (next_signal_id (db_signals ?db2))"
  let ?R = "scan_new_token_among w1 w2 a env db"
  have "snd ?R = db \<or> snd ?R = w1 db \<or> snd ?R = ?db2
        \<or> (fst ?R = Signal_generated
            \<and> snd ?R = ?db2\<lparr>db_tokens := db_tokens ?db2 @ [?tok],
                                db_signals := db_signals ?db2 @ [?sig]\<rparr>)"
    by (simp add: scan_new_token_among_def commit_token_signal_def Let_def Some)
  moreover have "contract_address ?tok = a" and "token_address ?sig = a"
    by (simp_all add: new_token_def new_signal_def)
  ultimately show ?thesis by blast
qed

text \<open>
  Claim C7, as the code has it. When the dedup check passes and a Token row of the same
  address is there at the commit (created by another writer in between), the commit
  raises the integrity error, the scan does not handle it, and the error leaves
  \<^verbatim>\<open>scan_new_token\<close> with nothing written. In every interleaving the scan writes
  either nothing or both the Token and the Signal.
\<close>

theorem scan_commit_conflict:
  "(session_get_token db a = None
      \<and> get_token_metadata a (metadata_clock env) (metadata_response env)
            (das_symbol_found env) = Some meta
      \<and> \<not> scan_clock env - meta_created_at meta > 10 * 60 * 1000000
      \<and> 2 \<le> int (length (smart_wallet_matches (w2 (w1 db))
                  (get_token_signers (signers_response env))))
      \<and> session_get_token (w2 (w1 db)) a \<noteq> None
      \<longrightarrow> scan_new_token_among w1 w2 a env db = (Raised IntegrityError, w2 (w1 db)))
   \<and> (snd (scan_new_token_among w1 w2 a env db) = db
        \<or> snd (scan_new_token_among w1 w2 a env db) = w1 db
        \<or> snd (scan_new_token_among w1 w2 a env db) = w2 (w1 db)
        \<or> (fst (scan_new_token_among w1 w2 a env db) = Signal_generated
            \<and> (\<exists>tok sig. contract_address tok = a \<and> token_address sig = a
                  \<and> snd (scan_new_token_among w1 w2 a env db)
                      = (w2 (w1 db))\<lparr>db_tokens := db_tokens (w2 (w1 db)) @ [tok],
                                      db_signals := db_signals (w2 (w1 db)) @ [sig]\<rparr>)))"
proof (intro conjI impI)
  assume "session_get_token db a = None
      \<and> get_token_metadata a (metadata_clock env) (metadata_response env)
            (das_symbol_found env) = Some meta
      \<and> \<not> scan_clock env - meta_created_at meta > 10 * 60 * 1000000
      \<and> 2 \<le> int (length (smart_wallet_matches (w2 (w1 db))
                  (get_token_signers (signers_response env))))
      \<and> session_get_token (w2 (w1 db)) a \<noteq> None"
  then show "scan_new_token_among w1 w2 a env db = (Raised IntegrityError, w2 (w1 db))"
    by (simp add: scan_new_token_among_def commit_token_signal_def Let_def new_token_def)
next
  show "snd (scan_new_token_among w1 w2 a env db) = db
        \<or> snd (scan_new_token_among w1 w2 a env db) = w1 db
        \<or> snd (scan_new_token_among w1 w2 a env db) = w2 (w1 db)
        \<or> (fst (scan_new_token_among w1 w2 a env db) = Signal_generated
            \<and> (\<exists>tok sig. contract_address tok = a \<and> token_address sig = a
                  \<and> snd (scan_new_token_among w1 w2 a env db)
                      = (w2 (w1 db))\<lparr>db_tokens := db_tokens (w2 (w1 db)) @ [tok],
                                      db_signals := db_signals (w2 (w1 db)) @ [sig]\<rparr>))"
    by (rule scan_among_atomic)
qed

text \<open>
  The rival row appears while the metadata is fetched: the scan ends in the integrity
  error, and the store holds the rival's Token and no Signal.
\<close>

theorem scan_commit_conflict_witness:
  "fst (scan_new_token_among (rival_insert ''Mint'') (\<lambda>db. db) ''Mint'' sample_env
          sample_store) = Raised IntegrityError
   \<and> db_tokens (snd (scan_new_token_among (rival_insert ''Mint'') (\<lambda>db. db) ''Mint''
          sample_env sample_store)) = [rival_token ''Mint'']
   \<and> db_signals (snd (scan_new_token_among (rival_insert ''Mint'') (\<lambda>db. db) ''Mint''
          sample_env sample_store)) = []"
proof -
  let ?meta = "\<lparr>meta_symbol = ''PEPE'', meta_created_at = 1700000100000000,
                meta_dev_address = ''Dev'', meta_market_cap = 0\<rparr>"
  have "session_get_token sample_store ''Mint'' = None
      \<and> get_token_metadata ''Mint'' (metadata_clock sample_env)
            (metadata_response sample_env) (das_symbol_found sample_env) = Some ?meta
      \<and> \<not> scan_clock sample_env - meta_created_at ?meta > 10 * 60 * 1000000
      \<and> 2 \<le> int (length (smart_wallet_matches (rival_insert ''Mint'' sample_store)
                  (get_token_signers (signers_response sample_env))))
      \<and> session_get_token (rival_insert ''Mint'' sample_store) ''Mint'' \<noteq> None"
    by (simp add: sample_defs rival_insert_def rival_token_def)
  with scan_commit_conflict
         [where db = sample_store and a = "''Mint''" and env = sample_env and meta = ?meta
            and ?w1.0 = "rival_insert ''Mint''" and ?w2.0 = "\<lambda>db. db"]
  have "scan_new_token_among (rival_insert ''Mint'') (\<lambda>db. db) ''Mint'' sample_env
          sample_store = (Raised IntegrityError, rival_insert ''Mint'' sample_store)"
    by blast
  then show ?thesis
    by (simp add: rival_insert_def sample_store_def)
qed

text \<open>
  Claim C7 as stated fails on the error: with the rival row created while the signers
  are fetched, the scan does not return as in the dedup case, it raises.
\<close>

theorem scan_conflict_raises:
  "scan_new_token_among (\<lambda>db. db) (rival_insert ''Mint'') ''Mint'' sample_env sample_store
     = (Raised IntegrityError, rival_insert ''Mint'' sample_store)"
  by (simp add: scan_new_token_among_def commit_token_signal_def rival_insert_def
        rival_token_def sample_defs)

(*THMS*)

end
